theory Spec2Isabelle
  imports Complex_Main
begin

section \<open>Python values, exceptions and responses\<close>

text \<open>
  The two servers (\<^verbatim>\<open>TTSServer/tts_server.py\<close> and \<^verbatim>\<open>WhisperServer/whisper_server.py\<close>)
  are dynamically typed: what \<^verbatim>\<open>request.get_json()\<close> returns is any JSON value, and the
  model's transcription result is a dictionary of such values. They are modelled by one
  datatype of Python values. Strings are lists of characters over the code points 0..255;
  a float is its exact value, or one of the three special values.
\<close>

datatype pyfloat = Fin rat | PosInf | NegInf | NaN

datatype pyval =
    PNone
  | PBool bool
  | PInt int
  | PFloat pyfloat
  | PStr string
  | PList "pyval list"
  | PDict "(string \<times> pyval) list"

text \<open>
  Exceptions are values. \<open>LibError\<close> is any exception raised inside a third-party call
  (the model, the audio library, the temporary-file module), carrying its message.
\<close>

datatype pyexn =
    TypeError string
  | AttributeError string
  | KeyError string
  | FileNotFoundError string
  | LibError string

fun str_exn :: "pyexn \<Rightarrow> string" where
  "str_exn (TypeError m) = m"
| "str_exn (AttributeError m) = m"
| "str_exn (KeyError k) = [CHR 0x27] @ k @ [CHR 0x27]"
| "str_exn (FileNotFoundError m) = m"
| "str_exn (LibError m) = m"

type_synonym path = string
type_synonym samples = "rat list"
type_synonym bytes = "nat list"

datatype handle = Handle string

datatype body =
    JsonBody "(string \<times> pyval) list"
  | TextBody pyval
  | FileBody bytes

record response =
  status :: nat
  body :: body
  mimetype :: string
  download_name :: "string option"

text \<open>\<^verbatim>\<open>jsonify({...})\<close> is a 200 response; \<^verbatim>\<open>jsonify({...}), code\<close> sets the status.\<close>

definition jsonify :: "(string \<times> pyval) list \<Rightarrow> response" where
  "jsonify d = \<lparr>status = 200, body = JsonBody d, mimetype = ''application/json'',
                download_name = None\<rparr>"

definition json_error :: "string \<Rightarrow> nat \<Rightarrow> response" where
  "json_error msg code = (jsonify [(''error'', PStr msg)])\<lparr>status := code\<rparr>"

text \<open>\<^verbatim>\<open>send_file(buf, mimetype=..., as_attachment=True, download_name=...)\<close>.\<close>

definition send_file :: "bytes \<Rightarrow> string \<Rightarrow> string \<Rightarrow> response" where
  "send_file buf mt name = \<lparr>status = 200, body = FileBody buf, mimetype = mt,
                            download_name = Some name\<rparr>"

text \<open>The tuple \<^verbatim>\<open>(text, 200, {'Content-Type': 'text/plain'})\<close> returned by a view.\<close>

definition plain_text :: "pyval \<Rightarrow> response" where
  "plain_text t = \<lparr>status = 200, body = TextBody t, mimetype = ''text/plain'',
                   download_name = None\<rparr>"

section \<open>The process state and the effects of a handler\<close>

text \<open>
  Each server is one process with a global model handle (\<^verbatim>\<open>tts_model\<close>, \<^verbatim>\<open>model\<close>), the
  temporary files it has on disk, and the sequence of calls it has made to the outside
  (the log, the file system, the libraries), in order.
\<close>

datatype event =
    LogInfo string
  | LogError string
  | MkTemp path
  | SaveUpload path
  | Unlink path
  | PathExists path
  | TTSInit string
  | ToDevice string
  | LoadModel string
  | TtsToFile string path
  | SfRead path
  | TimeStretch samples pyval
  | SfWrite samples nat
  | Transcribe path
  | AppRun string nat

record world =
  model :: "handle option"
  files :: "path set"
  trace :: "event list"

text \<open>
  A piece of Python is a function from the state to an outcome and the new state; the
  outcome is the value returned (\<open>Inr\<close>) or the exception raised (\<open>Inl\<close>).
\<close>

type_synonym 'a prog = "world \<Rightarrow> (pyexn + 'a) \<times> world"

definition ret :: "'a \<Rightarrow> 'a prog" where
  "ret x = (\<lambda>w. (Inr x, w))"

definition raise :: "pyexn \<Rightarrow> 'a prog" where
  "raise e = (\<lambda>w. (Inl e, w))"

definition bnd :: "'a prog \<Rightarrow> ('a \<Rightarrow> 'b prog) \<Rightarrow> 'b prog" where
  "bnd m f = (\<lambda>w. case m w of (Inl e, w') \<Rightarrow> (Inl e, w') | (Inr x, w') \<Rightarrow> f x w')"

definition seq :: "unit prog \<Rightarrow> 'b prog \<Rightarrow> 'b prog" where
  "seq m n = bnd m (\<lambda>_. n)"

text \<open>\<^verbatim>\<open>try: m  except Exception as e: h(e)\<close>.\<close>

definition try_except :: "'a prog \<Rightarrow> (pyexn \<Rightarrow> 'a prog) \<Rightarrow> 'a prog" where
  "try_except m h = (\<lambda>w. case m w of (Inl e, w') \<Rightarrow> h e w' | (Inr x, w') \<Rightarrow> (Inr x, w'))"

definition emit :: "event \<Rightarrow> unit prog" where
  "emit ev = (\<lambda>w. (Inr (), w\<lparr>trace := trace w @ [ev]\<rparr>))"

text \<open>A call into a library: it is recorded, then returns or raises as the library does.\<close>

definition ext :: "event \<Rightarrow> (pyexn + 'a) \<Rightarrow> 'a prog" where
  "ext ev r = seq (emit ev) (case r of Inl e \<Rightarrow> raise e | Inr x \<Rightarrow> ret x)"

definition get_model :: "(handle option) prog" where
  "get_model = (\<lambda>w. (Inr (model w), w))"

definition set_model :: "handle \<Rightarrow> unit prog" where
  "set_model h = (\<lambda>w. (Inr (), w\<lparr>model := Some h\<rparr>))"

text \<open>
  \<^verbatim>\<open>tempfile.NamedTemporaryFile(delete=False, suffix='.wav')\<close>: the file is created on disk
  under the name the system chose, and stays there when the handle is closed.
\<close>

definition named_temporary_file :: "(pyexn + path) \<Rightarrow> path prog" where
  "named_temporary_file r =
     (case r of
        Inl e \<Rightarrow> raise e
      | Inr p \<Rightarrow> (\<lambda>w. (Inr p, w\<lparr>files := insert p (files w), trace := trace w @ [MkTemp p]\<rparr>)))"

text \<open>\<^verbatim>\<open>os.unlink(p)\<close> removes the file, and raises when there is none.\<close>

definition os_unlink :: "path \<Rightarrow> unit prog" where
  "os_unlink p =
     seq (emit (Unlink p))
       (\<lambda>w. if p \<in> files w then (Inr (), w\<lparr>files := files w - {p}\<rparr>)
            else (Inl (FileNotFoundError p), w))"

definition os_path_exists :: "path \<Rightarrow> bool prog" where
  "os_path_exists p = seq (emit (PathExists p)) (\<lambda>w. (Inr (p \<in> files w), w))"

section \<open>Python operators on values\<close>

text \<open>Truthiness, as \<^verbatim>\<open>not data\<close> reads it.\<close>

fun truthy :: "pyval \<Rightarrow> bool" where
  "truthy PNone = False"
| "truthy (PBool b) = b"
| "truthy (PInt i) = (i \<noteq> 0)"
| "truthy (PFloat f) = (f \<noteq> Fin 0)"
| "truthy (PStr s) = (s \<noteq> [])"
| "truthy (PList xs) = (xs \<noteq> [])"
| "truthy (PDict kvs) = (kvs \<noteq> [])"

fun is_substring :: "string \<Rightarrow> string \<Rightarrow> bool" where
  "is_substring k [] = (k = [])"
| "is_substring k (c # cs) = (take (length k) (c # cs) = k \<or> is_substring k cs)"

text \<open>
  \<^verbatim>\<open>k in data\<close> for a string \<open>k\<close>: a key of a dict, an element of a list, a substring of a
  string; any other value is not iterable.
\<close>

fun py_contains :: "pyval \<Rightarrow> string \<Rightarrow> pyexn + bool" where
  "py_contains (PDict kvs) k = Inr (map_of kvs k \<noteq> None)"
| "py_contains (PList xs) k = Inr (List.member xs (PStr k))"
| "py_contains (PStr s) k = Inr (is_substring k s)"
| "py_contains v k = Inl (TypeError ''argument is not iterable'')"

text \<open>\<^verbatim>\<open>data[k]\<close> for a string \<open>k\<close>.\<close>

fun py_subscript :: "pyval \<Rightarrow> string \<Rightarrow> pyexn + pyval" where
  "py_subscript (PDict kvs) k = (case map_of kvs k of None \<Rightarrow> Inl (KeyError k) | Some v \<Rightarrow> Inr v)"
| "py_subscript (PList xs) k = Inl (TypeError ''list indices must be integers or slices, not str'')"
| "py_subscript (PStr s) k = Inl (TypeError ''string indices must be integers'')"
| "py_subscript v k = Inl (TypeError ''object is not subscriptable'')"

text \<open>\<^verbatim>\<open>data.get(k, default)\<close>.\<close>

fun py_get :: "pyval \<Rightarrow> string \<Rightarrow> pyval \<Rightarrow> pyexn + pyval" where
  "py_get (PDict kvs) k d = Inr (case map_of kvs k of None \<Rightarrow> d | Some v \<Rightarrow> v)"
| "py_get v k d = Inl (AttributeError ''object has no attribute get'')"

definition dict_get :: "(string \<times> pyval) list \<Rightarrow> string \<Rightarrow> pyval \<Rightarrow> pyval" where
  "dict_get kvs k d = (case map_of kvs k of None \<Rightarrow> d | Some v \<Rightarrow> v)"

text \<open>
  \<^verbatim>\<open>str.isspace\<close> on the code points 0..255: tab to carriage return, the four separators
  0x1c..0x1f, the space, NEL (0x85) and the no-break space (0xa0).
\<close>

definition is_space :: "char \<Rightarrow> bool" where
  "is_space c = (let n = (of_char c :: nat) in
      (9 \<le> n \<and> n \<le> 13) \<or> (28 \<le> n \<and> n \<le> 32) \<or> n = 133 \<or> n = 160)"

definition strip :: "string \<Rightarrow> string" where
  "strip s = rev (dropWhile is_space (rev (dropWhile is_space s)))"

text \<open>
  \<^verbatim>\<open>str.lower\<close> on the code points 0..255: the letters A..Z, and the upper-case letters of
  Latin-1 (0xc0..0xde but the multiplication sign 0xd7), move up by 32.
\<close>

definition lower_char :: "char \<Rightarrow> char" where
  "lower_char c = (let n = (of_char c :: nat) in
      if (65 \<le> n \<and> n \<le> 90) \<or> (192 \<le> n \<and> n \<le> 222 \<and> n \<noteq> 215)
      then char_of (n + 32) else c)"

definition lower :: "string \<Rightarrow> string" where
  "lower s = map lower_char s"

text \<open>
  \<^verbatim>\<open>speed != 1.0\<close>: numbers compare by value (a bool is the integer 0 or 1); a value of
  any other type is different from the float.
\<close>

fun py_ne_one :: "pyval \<Rightarrow> bool" where
  "py_ne_one (PInt i) = (i \<noteq> 1)"
| "py_ne_one (PBool b) = (\<not> b)"
| "py_ne_one (PFloat f) = (f \<noteq> Fin 1)"
| "py_ne_one v = True"

text \<open>Lifting the outcome of an operator into the handler.\<close>

definition lift :: "(pyexn + 'a) \<Rightarrow> 'a prog" where
  "lift r = (case r of Inl e \<Rightarrow> raise e | Inr x \<Rightarrow> ret x)"

text \<open>The decimal rendering of a port number in a log line.\<close>

fun show_nat :: "nat \<Rightarrow> string" where
  "show_nat n = (if n < 10 then [char_of (48 + n)]
                 else show_nat (n div 10) @ [char_of (48 + n mod 10)])"

record args =
  arg_host :: string
  arg_port :: nat
  arg_debug :: bool

section \<open>The synthesis service: \<^verbatim>\<open>TTSServer/tts_server.py\<close>\<close>

text \<open>
  What the libraries do is a parameter: each call returns a value or raises, as the
  environment says. \<^verbatim>\<open>torch.cuda.is_available()\<close> is a query with a boolean answer.
\<close>

record tts_env =
  cuda_available :: bool
  tts_init :: "string \<Rightarrow> pyexn + handle"
  to_device :: "handle \<Rightarrow> string \<Rightarrow> pyexn + handle"
  tts_mktemp :: "pyexn + path"
  tts_to_file :: "handle \<Rightarrow> string \<Rightarrow> path \<Rightarrow> pyexn + unit"
  sf_read :: "path \<Rightarrow> pyexn + samples \<times> nat"
  time_stretch :: "samples \<Rightarrow> pyval \<Rightarrow> pyexn + samples"
  sf_write :: "samples \<Rightarrow> nat \<Rightarrow> pyexn + bytes"
  tts_app_run :: "args \<Rightarrow> pyexn + unit"

text \<open>
  \<^verbatim>\<open>load_tts_model\<close> (lines 31-59): the model named at line 39, moved to the device, and
  the fallback model named at line 54.
\<close>

definition tts_primary :: string where
  "tts_primary = ''tts_models/en/ljspeech/tacotron2-DDC''"

definition tts_fallback :: string where
  "tts_fallback = ''tts_models/en/ljspeech/glow-tts''"

definition load_tts_model :: "tts_env \<Rightarrow> bool prog" where
  "load_tts_model env =
     try_except
       (seq (emit (LogInfo ''Loading TTS model...''))
         (let model_name = tts_primary;
              device = (if cuda_available env then ''cuda'' else ''cpu'')
          in seq (emit (LogInfo (''Using device: '' @ device)))
              (bnd (ext (TTSInit model_name) (tts_init env model_name)) (\<lambda>m.
               bnd (ext (ToDevice device) (to_device env m device)) (\<lambda>m'.
               seq (set_model m')
              (seq (emit (LogInfo ''TTS model loaded successfully''))
                   (ret True)))))))
       (\<lambda>e.
         seq (emit (LogError (''Failed to load TTS model: '' @ str_exn e)))
          (try_except
            (seq (emit (LogInfo ''Trying fallback model...''))
              (bnd (ext (TTSInit tts_fallback) (tts_init env tts_fallback)) (\<lambda>m.
               seq (set_model m)
              (seq (emit (LogInfo ''Fallback TTS model loaded successfully''))
                   (ret True)))))
            (\<lambda>e2.
              seq (emit (LogError (''Fallback model also failed: '' @ str_exn e2)))
                  (ret False))))"

text \<open>\<^verbatim>\<open>health\<close> (lines 61-69).\<close>

definition tts_health :: "tts_env \<Rightarrow> response prog" where
  "tts_health env =
     bnd get_model (\<lambda>tts_model.
       ret (jsonify [(''status'', PStr ''healthy''),
                     (''model_loaded'', PBool (tts_model \<noteq> None)),
                     (''service'', PStr ''coqui-tts''),
                     (''cuda_available'', PBool (cuda_available env))]))"

text \<open>
  The log line of \<^verbatim>\<open>synthesize\<close> (line 91): the first 50 characters of the text, in
  quotes, with an ellipsis when the text is longer.
\<close>

definition synth_log :: "string \<Rightarrow> string" where
  "synth_log t = ''Synthesizing text: '' @ [CHR 0x27] @ take 50 t
                   @ (if length t > 50 then ''...'' else []) @ [CHR 0x27]"

text \<open>
  What \<^verbatim>\<open>request.get_json()\<close> (line 79) does with the request: it returns the parsed body
  (\<open>None\<close> for the literal \<^verbatim>\<open>null\<close>), or raises, as it does for a request that has no
  JSON body at all or a malformed one, the call being made without \<^verbatim>\<open>silent=True\<close>.
\<close>

record tts_request =
  json_body :: "pyexn + pyval"

text \<open>
  The inner \<^verbatim>\<open>try\<close> block of \<^verbatim>\<open>synthesize\<close> (lines 94-128), for the text, format and
  speed that the validation produced.
\<close>

definition synthesize_processing ::
    "tts_env \<Rightarrow> handle \<Rightarrow> string \<Rightarrow> pyval \<Rightarrow> pyval \<Rightarrow> response prog" where
  "synthesize_processing env tts_model text response_format speed =
     bnd (named_temporary_file (tts_mktemp env)) (\<lambda>tmp_filename.
     bnd (ext (TtsToFile text tmp_filename) (tts_to_file env tts_model text tmp_filename)) (\<lambda>_.
     bnd (ext (SfRead tmp_filename) (sf_read env tmp_filename)) (\<lambda>(audio_data, sample_rate).
     seq (os_unlink tmp_filename)
    (bnd (if py_ne_one speed
          then ext (TimeStretch audio_data speed) (time_stretch env audio_data speed)
          else ret audio_data) (\<lambda>audio_data.
     case response_format of
       PStr fmt \<Rightarrow>
         if lower fmt = ''wav'' then
           bnd (ext (SfWrite audio_data sample_rate) (sf_write env audio_data sample_rate))
             (\<lambda>wav_buffer. ret (send_file wav_buffer ''audio/wav'' ''speech.wav''))
         else ret (json_error (''Unsupported format: '' @ fmt) 400)
     | _ \<Rightarrow> raise (AttributeError ''object has no attribute lower''))))))"

text \<open>\<^verbatim>\<open>synthesize\<close> (lines 71-136).\<close>

definition synthesize :: "tts_env \<Rightarrow> tts_request \<Rightarrow> response prog" where
  "synthesize env req =
     try_except
       (bnd get_model (\<lambda>tts_model.
          case tts_model of
            None \<Rightarrow> ret (json_error ''TTS model not loaded'' 500)
          | Some m \<Rightarrow>
         bnd (lift (json_body req)) (\<lambda>data.
         bnd (if \<not> truthy data then ret True
              else bnd (lift (py_contains data ''text'')) (\<lambda>b. ret (\<not> b))) (\<lambda>no_text.
           if no_text then ret (json_error ''No text provided'' 400) else
         bnd (lift (py_subscript data ''text'')) (\<lambda>text.
           case text of
             PStr t \<Rightarrow>
               if strip t = [] then ret (json_error ''Empty text provided'' 400) else
               bnd (lift (py_get data ''response_format'' (PStr ''wav''))) (\<lambda>response_format.
               bnd (lift (py_get data ''speed'' (PFloat (Fin 1)))) (\<lambda>speed.
               seq (emit (LogInfo (synth_log t)))
                (try_except (synthesize_processing env m t response_format speed)
                   (\<lambda>e. seq (emit (LogError (''Speech synthesis error: '' @ str_exn e)))
                          (ret (json_error (''Speech synthesis failed: '' @ str_exn e) 500))))))
           | _ \<Rightarrow> raise (AttributeError ''object has no attribute strip''))))))
       (\<lambda>e. seq (emit (LogError (''Request processing error: '' @ str_exn e)))
              (ret (json_error (''Request processing failed: '' @ str_exn e) 500)))"

text \<open>
  \<^verbatim>\<open>main\<close> (lines 167-186), after the arguments are parsed. The value is the status of
  \<^verbatim>\<open>sys.exit\<close>, or \<open>None\<close> when \<^verbatim>\<open>main\<close> returns.
\<close>

definition tts_main :: "tts_env \<Rightarrow> args \<Rightarrow> (nat option) prog" where
  "tts_main env a =
     bnd (load_tts_model env) (\<lambda>ok.
       if \<not> ok then
         seq (emit (LogError ''Failed to load TTS model. Exiting.'')) (ret (Some 1))
       else
         seq (emit (LogInfo (''Starting TTS server on '' @ arg_host a @ '':''
                              @ show_nat (arg_port a))))
          (try_except
             (bnd (ext (AppRun (arg_host a) (arg_port a)) (tts_app_run env a))
                  (\<lambda>_. ret None))
             (\<lambda>e. seq (emit (LogError (''Server error: '' @ str_exn e))) (ret (Some 1)))))"

section \<open>The transcription service: \<^verbatim>\<open>WhisperServer/whisper_server.py\<close>\<close>

record upload =
  filename :: "string option"
  content :: bytes

record stt_request =
  req_files :: "(string \<times> upload) list"
  req_form :: "(string \<times> string) list"

record stt_env =
  load_model :: "string \<Rightarrow> pyexn + handle"
  stt_mktemp :: "pyexn + path"
  save_upload :: "upload \<Rightarrow> path \<Rightarrow> pyexn + unit"
  transcribe_file :: "handle \<Rightarrow> path \<Rightarrow> pyexn + (string \<times> pyval) list"
  stt_app_run :: "args \<Rightarrow> pyexn + unit"

text \<open>\<^verbatim>\<open>load_whisper_model\<close> (lines 29-39).\<close>

definition load_whisper_model :: "stt_env \<Rightarrow> string \<Rightarrow> bool prog" where
  "load_whisper_model env model_name =
     try_except
       (seq (emit (LogInfo (''Loading Whisper model: '' @ model_name)))
         (bnd (ext (LoadModel model_name) (load_model env model_name)) (\<lambda>m.
          seq (set_model m)
         (seq (emit (LogInfo ''Whisper model loaded successfully''))
              (ret True)))))
       (\<lambda>e. seq (emit (LogError (''Failed to load Whisper model: '' @ str_exn e)))
              (ret False))"

text \<open>\<^verbatim>\<open>health\<close> (lines 41-48).\<close>

definition stt_health :: "response prog" where
  "stt_health =
     bnd get_model (\<lambda>m.
       ret (jsonify [(''status'', PStr ''healthy''),
                     (''model_loaded'', PBool (m \<noteq> None)),
                     (''service'', PStr ''whisper-stt'')]))"

text \<open>
  The inner \<^verbatim>\<open>try\<close> statement of \<^verbatim>\<open>transcribe\<close> (lines 72-97), with its handler, for the
  temporary file that holds the upload.
\<close>

definition transcribe_inner ::
    "stt_env \<Rightarrow> handle \<Rightarrow> string \<Rightarrow> path \<Rightarrow> response prog" where
  "transcribe_inner env m response_format tmp =
     try_except
       (seq (emit (LogInfo (''Transcribing audio file: '' @ tmp)))
         (bnd (ext (Transcribe tmp) (transcribe_file env m tmp)) (\<lambda>result.
          seq (os_unlink tmp)
           (if response_format = ''json'' then
              bnd (lift (py_subscript (PDict result) ''text'')) (\<lambda>t.
                ret (jsonify [(''text'', t),
                              (''language'', dict_get result ''language'' (PStr ''en'')),
                              (''duration'', dict_get result ''duration'' (PInt 0)),
                              (''segments'', dict_get result ''segments'' (PList []))]))
            else
              bnd (lift (py_subscript (PDict result) ''text'')) (\<lambda>t. ret (plain_text t))))))
       (\<lambda>e.
         seq (emit (LogError (''Transcription error: '' @ str_exn e)))
          (bnd (os_path_exists tmp) (\<lambda>there.
           seq (if there then os_unlink tmp else ret ())
               (ret (json_error (''Transcription failed: '' @ str_exn e) 500)))))"

text \<open>\<^verbatim>\<open>request.form.get('response_format', 'json')\<close> (line 66).\<close>

definition form_format :: "stt_request \<Rightarrow> string" where
  "form_format req = (case map_of (req_form req) ''response_format'' of
                         None \<Rightarrow> ''json'' | Some f \<Rightarrow> f)"

text \<open>\<^verbatim>\<open>transcribe\<close> (lines 50-101).\<close>

definition transcribe :: "stt_env \<Rightarrow> stt_request \<Rightarrow> response prog" where
  "transcribe env req =
     try_except
       (bnd get_model (\<lambda>mdl.
          case mdl of
            None \<Rightarrow> ret (json_error ''Model not loaded'' 500)
          | Some m \<Rightarrow>
         (case map_of (req_files req) ''audio'' of
            None \<Rightarrow> ret (json_error ''No audio file provided'' 400)
          | Some audio_file \<Rightarrow>
              if filename audio_file = Some [] then
                ret (json_error ''No audio file selected'' 400)
              else
                let response_format = form_format req
                in bnd (named_temporary_file (stt_mktemp env)) (\<lambda>tmp.
                   bnd (ext (SaveUpload tmp) (save_upload env audio_file tmp)) (\<lambda>_.
                   transcribe_inner env m response_format tmp)))))
       (\<lambda>e. seq (emit (LogError (''Request processing error: '' @ str_exn e)))
              (ret (json_error (''Request processing failed: '' @ str_exn e) 500)))"

text \<open>
  \<^verbatim>\<open>main\<close> (lines 116-137), after the arguments are parsed; \<open>model_name\<close> is the value of
  \<^verbatim>\<open>--model\<close>.
\<close>

definition stt_main :: "stt_env \<Rightarrow> args \<Rightarrow> string \<Rightarrow> (nat option) prog" where
  "stt_main env a model_name =
     bnd (load_whisper_model env model_name) (\<lambda>ok.
       if \<not> ok then
         seq (emit (LogError ''Failed to load Whisper model. Exiting.'')) (ret (Some 1))
       else
         seq (emit (LogInfo (''Starting Whisper server on '' @ arg_host a @ '':''
                              @ show_nat (arg_port a))))
        (seq (emit (LogInfo (''Using model: '' @ model_name)))
          (try_except
             (bnd (ext (AppRun (arg_host a) (arg_port a)) (stt_app_run env a))
                  (\<lambda>_. ret None))
             (\<lambda>e. seq (emit (LogError (''Server error: '' @ str_exn e))) (ret (Some 1))))))"

section \<open>Observing a run\<close>

text \<open>The calls a piece of code made, in order: what it added to the trace.\<close>

definition events_of :: "'a prog \<Rightarrow> world \<Rightarrow> event list" where
  "events_of m w = drop (length (trace w)) (trace (snd (m w)))"


fun is_transcribe_call :: "event \<Rightarrow> bool" where
  "is_transcribe_call (Transcribe p) = True"
| "is_transcribe_call ev = False"

fun is_stretch :: "event \<Rightarrow> bool" where
  "is_stretch (TimeStretch a v) = True"
| "is_stretch ev = False"

fun is_write :: "event \<Rightarrow> bool" where
  "is_write (SfWrite a r) = True"
| "is_write ev = False"

fun is_load_attempt :: "event \<Rightarrow> bool" where
  "is_load_attempt (TTSInit n) = True"
| "is_load_attempt (LoadModel n) = True"
| "is_load_attempt ev = False"

fun is_app_run :: "event \<Rightarrow> bool" where
  "is_app_run (AppRun h p) = True"
| "is_app_run ev = False"

section \<open>Sample environments and requests\<close>

text \<open>
  Concrete inputs on which the properties below are exercised: a synthesis environment in
  which every library call succeeds, one in which the model's file synthesis raises, and
  the corresponding states and requests.
\<close>

definition env_ok :: tts_env where
  "env_ok = \<lparr>cuda_available = False, tts_init = (\<lambda>n. Inr (Handle n)),
     to_device = (\<lambda>h d. Inr h), tts_mktemp = Inr ''/tmp/tmpa1.wav'',
     tts_to_file = (\<lambda>h t p. Inr ()), sf_read = (\<lambda>p. Inr ([0, 1 / 2], 22050)),
     time_stretch = (\<lambda>a v. Inr (butlast a)), sf_write = (\<lambda>a r. Inr [82, 73, 70, 70]),
     tts_app_run = (\<lambda>a. Inr ())\<rparr>"

definition env_tts_fails :: tts_env where
  "env_tts_fails = env_ok\<lparr>tts_to_file := (\<lambda>h t p. Inl (LibError ''model crashed''))\<rparr>"

definition w_loaded :: world where
  "w_loaded = \<lparr>model = Some (Handle ''tacotron2''), files = {}, trace = []\<rparr>"

definition w_unloaded :: world where
  "w_unloaded = \<lparr>model = None, files = {}, trace = []\<rparr>"

definition req_hello :: tts_request where
  "req_hello = \<lparr>json_body = Inr (PDict [(''text'', PStr ''hello'')])\<rparr>"




definition req_upper_wav :: tts_request where
  "req_upper_wav = \<lparr>json_body = Inr (PDict [(''text'', PStr ''hello''),
                                              (''response_format'', PStr ''WAV'')])\<rparr>"

definition req_mp3_fast :: tts_request where
  "req_mp3_fast = \<lparr>json_body = Inr (PDict [(''text'', PStr ''hello''),
                                             (''response_format'', PStr ''mp3''),
                                             (''speed'', PFloat (Fin 2))])\<rparr>"

definition req_wav_fast :: tts_request where
  "req_wav_fast = \<lparr>json_body = Inr (PDict [(''text'', PStr ''hello''),
                                             (''speed'', PFloat (Fin 2))])\<rparr>"

definition env_load_fails :: tts_env where
  "env_load_fails = env_ok\<lparr>tts_init := (\<lambda>n. Inl (LibError ''no such model''))\<rparr>"

definition args0 :: args where
  "args0 = \<lparr>arg_host = ''127.0.0.1'', arg_port = 8002, arg_debug = False\<rparr>"

text \<open>
  The same for the transcription service: an environment whose model returns a transcript,
  one whose model raises, one whose model cannot be loaded, and uploads.
\<close>

definition stt_env_ok :: stt_env where
  "stt_env_ok = \<lparr>load_model = (\<lambda>n. Inr (Handle n)), stt_mktemp = Inr ''/tmp/tmpb2.wav'',
     save_upload = (\<lambda>u p. Inr ()),
     transcribe_file = (\<lambda>h p. Inr [(''text'', PStr ''hello world''),
                                     (''language'', PStr ''de'')]),
     stt_app_run = (\<lambda>a. Inr ())\<rparr>"

definition stt_env_raises :: stt_env where
  "stt_env_raises = stt_env_ok\<lparr>transcribe_file := (\<lambda>h p. Inl (LibError ''bad audio''))\<rparr>"

definition stt_env_load_fails :: stt_env where
  "stt_env_load_fails = stt_env_ok\<lparr>load_model := (\<lambda>n. Inl (LibError ''no such model''))\<rparr>"

definition stt_loaded :: world where
  "stt_loaded = \<lparr>model = Some (Handle ''base''), files = {}, trace = []\<rparr>"

definition clip :: upload where
  "clip = \<lparr>filename = Some ''clip.wav'', content = [82, 73, 70, 70]\<rparr>"

definition req_audio :: stt_request where
  "req_audio = \<lparr>req_files = [(''audio'', clip)], req_form = []\<rparr>"

definition req_audio_text :: stt_request where
  "req_audio_text = \<lparr>req_files = [(''audio'', clip)],
                      req_form = [(''response_format'', ''text'')]\<rparr>"

definition req_no_audio :: stt_request where
  "req_no_audio = \<lparr>req_files = [], req_form = []\<rparr>"

definition req_unnamed_audio :: stt_request where
  "req_unnamed_audio = \<lparr>req_files = [(''audio'', clip\<lparr>filename := Some []\<rparr>)],
                         req_form = []\<rparr>"

section \<open>Properties\<close>

lemmas prog_defs = ret_def raise_def bnd_def seq_def try_except_def emit_def ext_def
  get_model_def set_model_def named_temporary_file_def os_unlink_def os_path_exists_def
  lift_def

text \<open>
  C7. \<^verbatim>\<open>GET /health\<close>, on either service, answers 200 with \<open>model_loaded\<close> true exactly
  when the model handle is set, and leaves the whole process state as it was.
\<close>

theorem C7_health_reports_and_keeps_state:
  "tts_health env w =
     (Inr \<lparr>status = 200,
           body = JsonBody [(''status'', PStr ''healthy''),
                            (''model_loaded'', PBool (model w \<noteq> None)),
                            (''service'', PStr ''coqui-tts''),
                            (''cuda_available'', PBool (cuda_available env))],
           mimetype = ''application/json'', download_name = None\<rparr>, w)
   \<and> stt_health w =
     (Inr \<lparr>status = 200,
           body = JsonBody [(''status'', PStr ''healthy''),
                            (''model_loaded'', PBool (model w \<noteq> None)),
                            (''service'', PStr ''whisper-stt'')],
           mimetype = ''application/json'', download_name = None\<rparr>, w)"
  by (simp add: tts_health_def stt_health_def jsonify_def prog_defs)

subsection \<open>The synthesis handler, stage by stage\<close>

lemma py_subscript_dict:
  "py_subscript b k = Inr v \<Longrightarrow> \<exists>kvs. b = PDict kvs \<and> map_of kvs k = Some v"
  by (cases b) (auto split: option.splits)

text \<open>A request that passes the three checks runs the inner \<^verbatim>\<open>try\<close> block.\<close>

lemma synthesize_valid:
  assumes "model w = Some m" "json_body req = Inr (PDict kvs)"
    "map_of kvs ''text'' = Some (PStr t)" "strip t \<noteq> []"
  shows "synthesize env req w =
     try_except (synthesize_processing env m t (dict_get kvs ''response_format'' (PStr ''wav''))
                    (dict_get kvs ''speed'' (PFloat (Fin 1))))
       (\<lambda>e. seq (emit (LogError (''Speech synthesis error: '' @ str_exn e)))
              (ret (json_error (''Speech synthesis failed: '' @ str_exn e) 500)))
       (w\<lparr>trace := trace w @ [LogInfo (synth_log t)]\<rparr>)"
proof -
  from assms(3) have ne: "kvs \<noteq> []" by auto
  show ?thesis
    using assms ne
    by (simp add: synthesize_def prog_defs dict_get_def split: prod.splits sum.splits)
qed

lemma processing_tts_fails:
  assumes "tts_mktemp env = Inr p" "tts_to_file env m t p = Inl e"
  shows "synthesize_processing env m t f s w =
     (Inl e, w\<lparr>files := insert p (files w), trace := trace w @ [MkTemp p, TtsToFile t p]\<rparr>)"
  using assms by (simp add: synthesize_processing_def prog_defs)

lemma processing_read_fails:
  assumes "tts_mktemp env = Inr p" "tts_to_file env m t p = Inr ()" "sf_read env p = Inl e"
  shows "synthesize_processing env m t f s w =
     (Inl e, w\<lparr>files := insert p (files w),
               trace := trace w @ [MkTemp p, TtsToFile t p, SfRead p]\<rparr>)"
  using assms by (simp add: synthesize_processing_def prog_defs)

lemma processing_read_ok:
  assumes "tts_mktemp env = Inr p" "tts_to_file env m t p = Inr ()"
    "sf_read env p = Inr (a, r)"
  shows "synthesize_processing env m t f s w =
     bnd (if py_ne_one s then ext (TimeStretch a s) (time_stretch env a s) else ret a)
       (\<lambda>audio_data.
          case f of
            PStr fmt \<Rightarrow>
              if lower fmt = ''wav'' then
                bnd (ext (SfWrite audio_data r) (sf_write env audio_data r))
                  (\<lambda>wav_buffer. ret (send_file wav_buffer ''audio/wav'' ''speech.wav''))
              else ret (json_error (''Unsupported format: '' @ fmt) 400)
          | _ \<Rightarrow> raise (AttributeError ''object has no attribute lower''))
       (w\<lparr>trace := trace w @ [MkTemp p, TtsToFile t p, SfRead p, Unlink p],
          files := files w - {p}\<rparr>)"
  using assms by (simp add: synthesize_processing_def prog_defs)



subsection \<open>Temporary files of the synthesis handler\<close>

text \<open>
  When the model's file synthesis, or the read-back, raises, the handler answers 500 and
  the temporary file is still on disk: \<^verbatim>\<open>os.unlink\<close> (line 106) stands after both calls
  and the handler of line 130 does not delete.
\<close>

lemma synthesize_leaves_tmp_file:
  assumes "model w = Some m" "json_body req = Inr (PDict kvs)"
    "map_of kvs ''text'' = Some (PStr t)" "strip t \<noteq> []"
    "tts_mktemp env = Inr p"
    "tts_to_file env m t p = Inl e \<or> (tts_to_file env m t p = Inr () \<and> sf_read env p = Inl e)"
  shows "fst (synthesize env req w)
           = Inr (json_error (''Speech synthesis failed: '' @ str_exn e) 500)
         \<and> p \<in> files (snd (synthesize env req w))"
  using assms
  by (auto simp add: synthesize_valid processing_tts_fails processing_read_fails
        try_except_def seq_def bnd_def emit_def ret_def)

text \<open>
  C1. The claim: the temporary file of a \<^verbatim>\<open>POST /synthesize\<close> request is deleted on every
  exit path, also when the model's file-synthesis call raises. The code at this input: the
  model is loaded, the text is \<open>hello\<close>, the temporary file \<open>/tmp/tmpa1.wav\<close> is created and
  \<^verbatim>\<open>tts_to_file\<close> raises; the handler answers 500 and the file is still there.
\<close>

theorem C1_synthesize_tmp_file_remains_when_model_raises:
  "fst (synthesize env_tts_fails req_hello w_loaded)
      = Inr (json_error ''Speech synthesis failed: model crashed'' 500)
   \<and> ''/tmp/tmpa1.wav'' \<in> files (snd (synthesize env_tts_fails req_hello w_loaded))"
  by (simp add: synthesize_valid [where m = "Handle ''tacotron2''"
          and kvs = "[(''text'', PStr ''hello'')]" and t = "''hello''"]
        processing_tts_fails [where p = "''/tmp/tmpa1.wav''" and e = "LibError ''model crashed''"]
        env_tts_fails_def env_ok_def w_loaded_def req_hello_def strip_def is_space_def
        try_except_def seq_def bnd_def emit_def ret_def)

subsection \<open>Validation of a synthesis request\<close>




text \<open>
  The request type is a JSON object. For the record, what the second check does with a
  body of another type: \<^verbatim>\<open>'text' not in data\<close> is a membership test on an array or a
  string, and raises on a number or a boolean; the exception is caught by the handler of
  line 134.
\<close>

lemma synthesize_array_body:
  "model w = Some m \<Longrightarrow> json_body req = Inr (PList [PInt 1]) \<Longrightarrow>
     synthesize env req w = (Inr (json_error ''No text provided'' 400), w)"
  by (simp add: synthesize_def prog_defs)

lemma synthesize_number_body:
  "model w = Some m \<Longrightarrow> json_body req = Inr (PInt 5) \<Longrightarrow>
     fst (synthesize env req w)
       = Inr (json_error ''Request processing failed: argument is not iterable'' 500)"
  by (simp add: synthesize_def prog_defs)

subsection \<open>The response format of a synthesis request\<close>

lemma processing_mktemp_fails:
  assumes "tts_mktemp env = Inl e"
  shows "synthesize_processing env m t f s w = (Inl e, w)"
  using assms by (simp add: synthesize_processing_def prog_defs)

lemma status_json_error: "status (json_error msg c) = c"
  by (simp add: json_error_def jsonify_def)

lemma lower_WAV: "lower ''WAV'' = ''wav''"
  by code_simp

lemma lower_mp3: "lower ''mp3'' = ''mp3''"
  by code_simp

text \<open>
  What \<open>lower fmt = ''wav''\<close> says of the format as it was sent: it is \<open>wav\<close> in any mix of
  upper and lower case.
\<close>

lemma lower_char_eq_letter:
  assumes k: "(of_char d :: nat) = k" "97 \<le> k" "k \<le> 122"
  shows "lower_char c = d \<longleftrightarrow> ((of_char c :: nat) = k \<or> (of_char c :: nat) = k - 32)"
proof -
  define n where "n = (of_char c :: nat)"
  have lt: "n < 256" by (simp add: n_def)
  have c: "(c = d) = (n = k)" using k(1) by (auto simp add: n_def)
  have u: "(char_of (n + 32) = d) = ((n + 32) mod 256 = k)"
    using k(1) by (simp add: char_of_eq_iff take_bit_eq_mod)
  have m: "((n + 32) mod 256 = k) = (n = k - 32)" if "n \<le> 222"
    using that k(2,3) by auto
  show ?thesis
    unfolding lower_char_def Let_def n_def [symmetric]
    using lt c u m k(2,3) by auto
qed

lemma lower_char_w: "lower_char c = CHR ''w'' \<longleftrightarrow> c = CHR ''w'' \<or> c = CHR ''W''"
proof -
  have "(c = CHR ''w'') = ((of_char c :: nat) = 119)"
    "(c = CHR ''W'') = ((of_char c :: nat) = 87)"
    by (auto simp add: of_char_eq_iff [symmetric, where 'a = nat] simp del: of_char_eq_iff)
  then show ?thesis using lower_char_eq_letter [of "CHR ''w''" 119 c] by simp
qed

lemma lower_char_a: "lower_char c = CHR ''a'' \<longleftrightarrow> c = CHR ''a'' \<or> c = CHR ''A''"
proof -
  have "(c = CHR ''a'') = ((of_char c :: nat) = 97)"
    "(c = CHR ''A'') = ((of_char c :: nat) = 65)"
    by (auto simp add: of_char_eq_iff [symmetric, where 'a = nat] simp del: of_char_eq_iff)
  then show ?thesis using lower_char_eq_letter [of "CHR ''a''" 97 c] by simp
qed

lemma lower_char_v: "lower_char c = CHR ''v'' \<longleftrightarrow> c = CHR ''v'' \<or> c = CHR ''V''"
proof -
  have "(c = CHR ''v'') = ((of_char c :: nat) = 118)"
    "(c = CHR ''V'') = ((of_char c :: nat) = 86)"
    by (auto simp add: of_char_eq_iff [symmetric, where 'a = nat] simp del: of_char_eq_iff)
  then show ?thesis using lower_char_eq_letter [of "CHR ''v''" 118 c] by simp
qed

lemma map_eq_three:
  "map f xs = [a, b, c] \<longleftrightarrow>
     (\<exists>x y z. xs = [x, y, z] \<and> f x = a \<and> f y = b \<and> f z = c)"
  by (auto simp add: map_eq_Cons_conv)

lemma lower_eq_wav:
  "lower fmt = ''wav'' \<longleftrightarrow>
     (\<exists>x y z. fmt = [x, y, z] \<and> (x = CHR ''w'' \<or> x = CHR ''W'')
        \<and> (y = CHR ''a'' \<or> y = CHR ''A'') \<and> (z = CHR ''v'' \<or> z = CHR ''V''))"
  unfolding lower_def
  by (simp only: map_eq_three lower_char_w lower_char_a lower_char_v)

lemma strip_hello: "strip ''hello'' \<noteq> []"
  by (simp add: strip_def is_space_def)

lemma synthesize_format_result:
  assumes "model w = Some m" "json_body req = Inr (PDict kvs)"
    "map_of kvs ''text'' = Some (PStr t)" "strip t \<noteq> []"
    "dict_get kvs ''response_format'' (PStr ''wav'') = PStr fmt"
    "tts_mktemp env = Inr p" "tts_to_file env m t p = Inr ()" "sf_read env p = Inr (a, r)"
    "(if py_ne_one (dict_get kvs ''speed'' (PFloat (Fin 1)))
      then time_stretch env a (dict_get kvs ''speed'' (PFloat (Fin 1))) else Inr a) = Inr a'"
    "lower fmt = ''wav'' \<longrightarrow> sf_write env a' r = Inr buf"
  shows "fst (synthesize env req w) =
     Inr (if lower fmt = ''wav''
          then \<lparr>status = 200, body = FileBody buf, mimetype = ''audio/wav'',
                download_name = Some ''speech.wav''\<rparr>
          else \<lparr>status = 400,
                body = JsonBody [(''error'', PStr (''Unsupported format: '' @ fmt))],
                mimetype = ''application/json'', download_name = None\<rparr>)"
  using assms(5,9,10)
  by (simp add: synthesize_valid [OF assms(1-4)] processing_read_ok [OF assms(6-8)]
        prog_defs send_file_def json_error_def jsonify_def split: if_splits)

text \<open>
  C4, as the claim states it: any \<open>response_format\<close> other than \<open>wav\<close> is answered 400. It
  fails for \<open>WAV\<close>: the format is lower-cased before it is compared (line 115), and the
  request is answered 200 with the attachment.
\<close>

theorem C4_upper_case_wav_is_accepted:
  "''WAV'' \<noteq> ''wav''
   \<and> fst (synthesize env_ok req_upper_wav w_loaded)
        = Inr \<lparr>status = 200, body = FileBody [82, 73, 70, 70], mimetype = ''audio/wav'',
                download_name = Some ''speech.wav''\<rparr>"
proof -
  have 1: "model w_loaded = Some (Handle ''tacotron2'')" by (simp add: w_loaded_def)
  have 2: "json_body req_upper_wav = Inr (PDict [(''text'', PStr ''hello''),
                                              (''response_format'', PStr ''WAV'')])"
    by (simp add: req_upper_wav_def)
  have 3: "map_of [(''text'', PStr ''hello''), (''response_format'', PStr ''WAV'')] ''text''
             = Some (PStr ''hello'')" by simp
  have 5: "dict_get [(''text'', PStr ''hello''), (''response_format'', PStr ''WAV'')]
             ''response_format'' (PStr ''wav'') = PStr ''WAV''" by (simp add: dict_get_def)
  have 6: "tts_mktemp env_ok = Inr ''/tmp/tmpa1.wav''" by (simp add: env_ok_def)
  have 7: "tts_to_file env_ok (Handle ''tacotron2'') ''hello'' ''/tmp/tmpa1.wav'' = Inr ()"
    by (simp add: env_ok_def)
  have 8: "sf_read env_ok ''/tmp/tmpa1.wav'' = Inr ([0, 1 / 2], 22050)"
    by (simp add: env_ok_def)
  have 9: "(if py_ne_one (dict_get [(''text'', PStr ''hello''),
                                    (''response_format'', PStr ''WAV'')]
                            ''speed'' (PFloat (Fin 1)))
            then time_stretch env_ok [0, 1 / 2]
                   (dict_get [(''text'', PStr ''hello''), (''response_format'', PStr ''WAV'')]
                      ''speed'' (PFloat (Fin 1)))
            else Inr [0, 1 / 2]) = Inr [0, 1 / 2]"
    by (simp add: dict_get_def)
  have 10: "lower ''WAV'' = ''wav'' \<longrightarrow>
              sf_write env_ok [0, 1 / 2] 22050 = Inr [82, 73, 70, 70]"
    by (simp add: env_ok_def)
  from synthesize_format_result [OF 1 2 3 strip_hello 5 6 7 8 9 10] lower_WAV
  show ?thesis by simp
qed

text \<open>
  C4, amended. For a request with a loaded model, a valid text and a string as
  \<open>response_format\<close> (\<open>wav\<close> when the field is absent), whose processing stage raises nothing
  (temporary file, model call, read-back, speed adjustment, and the encoding when it is
  reached): if the format is \<open>wav\<close> after lower-casing, the answer is 200 with the encoded
  audio as the attachment \<open>speech.wav\<close>; for any other format it is 400 with an error
  body that names the format as it was sent.
\<close>

theorem C4_synthesize_format_ignores_case:
  assumes "model w = Some m" "json_body req = Inr (PDict kvs)"
    "map_of kvs ''text'' = Some (PStr t)" "strip t \<noteq> []"
    "dict_get kvs ''response_format'' (PStr ''wav'') = PStr fmt"
    "tts_mktemp env = Inr p" "tts_to_file env m t p = Inr ()" "sf_read env p = Inr (a, r)"
    "(if py_ne_one (dict_get kvs ''speed'' (PFloat (Fin 1)))
      then time_stretch env a (dict_get kvs ''speed'' (PFloat (Fin 1))) else Inr a) = Inr a'"
    "lower fmt = ''wav'' \<longrightarrow> sf_write env a' r = Inr buf"
  shows "fst (synthesize env req w) =
     Inr (if lower fmt = ''wav''
          then \<lparr>status = 200, body = FileBody buf, mimetype = ''audio/wav'',
                download_name = Some ''speech.wav''\<rparr>
          else \<lparr>status = 400,
                body = JsonBody [(''error'', PStr (''Unsupported format: '' @ fmt))],
                mimetype = ''application/json'', download_name = None\<rparr>)"
  using assms by (rule synthesize_format_result)

lemma mp3_fast_facts:
  "model w_loaded = Some (Handle ''tacotron2'')"
  "json_body req_mp3_fast = Inr (PDict [(''text'', PStr ''hello''),
       (''response_format'', PStr ''mp3''), (''speed'', PFloat (Fin 2))])"
  "map_of [(''text'', PStr ''hello''), (''response_format'', PStr ''mp3''),
           (''speed'', PFloat (Fin 2))] ''text'' = Some (PStr ''hello'')"
  "dict_get [(''text'', PStr ''hello''), (''response_format'', PStr ''mp3''),
             (''speed'', PFloat (Fin 2))] ''response_format'' (PStr ''wav'') = PStr ''mp3''"
  "dict_get [(''text'', PStr ''hello''), (''response_format'', PStr ''mp3''),
             (''speed'', PFloat (Fin 2))] ''speed'' (PFloat (Fin 1)) = PFloat (Fin 2)"
  "tts_mktemp env_ok = Inr ''/tmp/tmpa1.wav''"
  "tts_to_file env_ok (Handle ''tacotron2'') ''hello'' ''/tmp/tmpa1.wav'' = Inr ()"
  "sf_read env_ok ''/tmp/tmpa1.wav'' = Inr ([0, 1 / 2], 22050)"
  "time_stretch env_ok [0, 1 / 2] (PFloat (Fin 2)) = Inr [0]"
  by (simp_all add: w_loaded_def req_mp3_fast_def env_ok_def dict_get_def)

theorem C4_synthesize_format_ignores_case_witness:
  "fst (synthesize env_ok req_mp3_fast w_loaded)
     = Inr \<lparr>status = 400, body = JsonBody [(''error'', PStr ''Unsupported format: mp3'')],
             mimetype = ''application/json'', download_name = None\<rparr>"
  using C4_synthesize_format_ignores_case [where w = w_loaded and m = "Handle ''tacotron2''"
      and req = req_mp3_fast
      and kvs = "[(''text'', PStr ''hello''), (''response_format'', PStr ''mp3''),
                  (''speed'', PFloat (Fin 2))]"
      and t = "''hello''" and fmt = "''mp3''" and env = env_ok and p = "''/tmp/tmpa1.wav''"
      and a = "[0, 1 / 2]" and r = 22050 and a' = "[0]" and buf = "[]"]
    mp3_fast_facts strip_hello lower_mp3
  by simp

subsection \<open>The speed adjustment\<close>

lemma synthesize_stretch_events:
  assumes "model w = Some m" "json_body req = Inr (PDict kvs)"
    "map_of kvs ''text'' = Some (PStr t)" "strip t \<noteq> []"
    "tts_mktemp env = Inr p" "tts_to_file env m t p = Inr ()" "sf_read env p = Inr (a, r)"
  shows "filter is_stretch (events_of (synthesize env req) w)
           = (if py_ne_one (dict_get kvs ''speed'' (PFloat (Fin 1)))
              then [TimeStretch a (dict_get kvs ''speed'' (PFloat (Fin 1)))] else [])"
  by (simp add: synthesize_valid [OF assms(1-4)] processing_read_ok [OF assms(5-7)]
        prog_defs events_of_def
        split: sum.splits pyval.splits)

lemma synthesize_write_events:
  assumes "model w = Some m" "json_body req = Inr (PDict kvs)"
    "map_of kvs ''text'' = Some (PStr t)" "strip t \<noteq> []"
    "tts_mktemp env = Inr p" "tts_to_file env m t p = Inr ()" "sf_read env p = Inr (a, r)"
  shows "SfWrite a' r' \<in> set (events_of (synthesize env req) w) \<longrightarrow> r' = r"
  by (simp add: synthesize_valid [OF assms(1-4)] processing_read_ok [OF assms(5-7)]
        prog_defs events_of_def
        split: sum.splits pyval.splits)

lemma synthesize_write_event_wav:
  assumes "model w = Some m" "json_body req = Inr (PDict kvs)"
    "map_of kvs ''text'' = Some (PStr t)" "strip t \<noteq> []"
    "tts_mktemp env = Inr p" "tts_to_file env m t p = Inr ()" "sf_read env p = Inr (a, r)"
    "dict_get kvs ''response_format'' (PStr ''wav'') = PStr fmt" "lower fmt = ''wav''"
    "(if py_ne_one (dict_get kvs ''speed'' (PFloat (Fin 1)))
      then time_stretch env a (dict_get kvs ''speed'' (PFloat (Fin 1))) else Inr a) = Inr a'"
  shows "filter is_write (events_of (synthesize env req) w) = [SfWrite a' r]"
  using assms(8-10)
  by (simp add: synthesize_valid [OF assms(1-4)] processing_read_ok [OF assms(5-7)]
        prog_defs events_of_def split: sum.splits if_splits)

text \<open>
  C9. For a request that reaches the speed adjustment (the three checks passed, the
  temporary file written by the model and read back as samples \<open>a\<close> at rate \<open>r\<close>): the
  time-stretch is called, once, on \<open>a\<close> with the speed, exactly when the speed differs from
  \<open>1.0\<close>, and not at all when the field is absent; every encoding the handler asks for
  carries the rate \<open>r\<close> that was read back; and when the format is \<open>wav\<close> the encoding is
  asked for the adjusted samples at that same rate.
\<close>

theorem C9_speed_changes_samples_only:
  assumes "model w = Some m" "json_body req = Inr (PDict kvs)"
    "map_of kvs ''text'' = Some (PStr t)" "strip t \<noteq> []"
    "tts_mktemp env = Inr p" "tts_to_file env m t p = Inr ()" "sf_read env p = Inr (a, r)"
  shows "filter is_stretch (events_of (synthesize env req) w)
           = (case map_of kvs ''speed'' of
                None \<Rightarrow> []
              | Some speed \<Rightarrow> if py_ne_one speed then [TimeStretch a speed] else [])
     \<and> (\<forall>a' r'. SfWrite a' r' \<in> set (events_of (synthesize env req) w) \<longrightarrow> r' = r)
     \<and> (\<forall>fmt a'. dict_get kvs ''response_format'' (PStr ''wav'') = PStr fmt
            \<and> lower fmt = ''wav''
            \<and> (if py_ne_one (dict_get kvs ''speed'' (PFloat (Fin 1)))
                then time_stretch env a (dict_get kvs ''speed'' (PFloat (Fin 1)))
                else Inr a) = Inr a'
          \<longrightarrow> filter is_write (events_of (synthesize env req) w) = [SfWrite a' r])"
proof -
  have 1: "filter is_stretch (events_of (synthesize env req) w)
           = (case map_of kvs ''speed'' of
                None \<Rightarrow> []
              | Some speed \<Rightarrow> if py_ne_one speed then [TimeStretch a speed] else [])"
    by (simp add: synthesize_stretch_events [OF assms] dict_get_def split: option.splits)
  have 2: "\<forall>a' r'. SfWrite a' r' \<in> set (events_of (synthesize env req) w) \<longrightarrow> r' = r"
    using synthesize_write_events [OF assms] by blast
  have 3: "\<forall>fmt a'. dict_get kvs ''response_format'' (PStr ''wav'') = PStr fmt
            \<and> lower fmt = ''wav''
            \<and> (if py_ne_one (dict_get kvs ''speed'' (PFloat (Fin 1)))
                then time_stretch env a (dict_get kvs ''speed'' (PFloat (Fin 1)))
                else Inr a) = Inr a'
          \<longrightarrow> filter is_write (events_of (synthesize env req) w) = [SfWrite a' r]"
    using synthesize_write_event_wav [OF assms] by blast
  from 1 2 3 show ?thesis by blast
qed

lemma wav_fast_facts:
  "model w_loaded = Some (Handle ''tacotron2'')"
  "json_body req_wav_fast = Inr (PDict [(''text'', PStr ''hello''),
                                        (''speed'', PFloat (Fin 2))])"
  "map_of [(''text'', PStr ''hello''), (''speed'', PFloat (Fin 2))] ''text''
     = Some (PStr ''hello'')"
  "map_of [(''text'', PStr ''hello''), (''speed'', PFloat (Fin 2))] ''speed''
     = Some (PFloat (Fin 2))"
  "dict_get [(''text'', PStr ''hello''), (''speed'', PFloat (Fin 2))]
     ''response_format'' (PStr ''wav'') = PStr ''wav''"
  "dict_get [(''text'', PStr ''hello''), (''speed'', PFloat (Fin 2))]
     ''speed'' (PFloat (Fin 1)) = PFloat (Fin 2)"
  "time_stretch env_ok [0, 1 / 2] (PFloat (Fin 2)) = Inr [0]"
  by (simp_all add: w_loaded_def req_wav_fast_def env_ok_def dict_get_def)

lemma lower_wav: "lower ''wav'' = ''wav''"
  by code_simp

theorem C9_speed_changes_samples_only_witness:
  "filter is_stretch (events_of (synthesize env_ok req_wav_fast) w_loaded)
      = [TimeStretch [0, 1 / 2] (PFloat (Fin 2))]
   \<and> filter is_write (events_of (synthesize env_ok req_wav_fast) w_loaded)
      = [SfWrite [0] 22050]"
proof -
  note c9 = C9_speed_changes_samples_only [OF wav_fast_facts(1-3) strip_hello
      mp3_fast_facts(6-8)]
  from c9 have "filter is_stretch (events_of (synthesize env_ok req_wav_fast) w_loaded)
      = [TimeStretch [0, 1 / 2] (PFloat (Fin 2))]"
    by (simp add: wav_fast_facts)
  moreover from c9 have "filter is_write (events_of (synthesize env_ok req_wav_fast) w_loaded)
      = [SfWrite [0] 22050]"
    using wav_fast_facts(5-7) lower_wav by simp
  ultimately show ?thesis by simp
qed

subsection \<open>An unsupported format is found after the processing stage\<close>

lemma synthesize_400_after_processing:
  assumes v: "model w = Some m" "json_body req = Inr (PDict kvs)"
    "map_of kvs ''text'' = Some (PStr t)" "strip t \<noteq> []"
    and r: "fst (synthesize env req w) = Inr resp" "status resp = 400"
  shows "\<exists>p a r fmt.
      tts_mktemp env = Inr p \<and> tts_to_file env m t p = Inr () \<and> sf_read env p = Inr (a, r)
      \<and> dict_get kvs ''response_format'' (PStr ''wav'') = PStr fmt \<and> lower fmt \<noteq> ''wav''
      \<and> resp = json_error (''Unsupported format: '' @ fmt) 400
      \<and> events_of (synthesize env req) w
          = [LogInfo (synth_log t), MkTemp p, TtsToFile t p, SfRead p, Unlink p]
            @ (if py_ne_one (dict_get kvs ''speed'' (PFloat (Fin 1)))
               then [TimeStretch a (dict_get kvs ''speed'' (PFloat (Fin 1)))] else [])
      \<and> p \<notin> files (snd (synthesize env req w))"
proof (cases "tts_mktemp env")
  case (Inl e)
  with r show ?thesis
    by (simp add: synthesize_valid [OF v] processing_mktemp_fails [OF Inl]
          try_except_def seq_def bnd_def emit_def ret_def) (auto simp: status_json_error)
next
  case (Inr p)
  note p = this
  show ?thesis
  proof (cases "tts_to_file env m t p")
    case (Inl e)
    with r show ?thesis
      by (simp add: synthesize_valid [OF v] processing_tts_fails [OF p Inl]
            try_except_def seq_def bnd_def emit_def ret_def) (auto simp: status_json_error)
  next
    case (Inr u)
    then have tf: "tts_to_file env m t p = Inr ()" by simp
    show ?thesis
    proof (cases "sf_read env p")
      case (Inl e)
      with r show ?thesis
        by (simp add: synthesize_valid [OF v] processing_read_fails [OF p tf Inl]
              try_except_def seq_def bnd_def emit_def ret_def) (auto simp: status_json_error)
    next
      case (Inr ar)
      obtain a r where ar: "sf_read env p = Inr (a, r)" using Inr by (cases ar) auto
      from r show ?thesis
        by (auto simp add: synthesize_valid [OF v] processing_read_ok [OF p tf ar] p tf ar
              prog_defs events_of_def send_file_def status_json_error
              split: sum.splits pyval.splits if_splits)
    qed
  qed
qed

text \<open>
  C10. When a request with a loaded model and a valid text is answered 400, the format was
  unsupported and the whole processing stage has run before: the temporary file was
  created, the model called, the audio read back and the file deleted, and the speed
  adjustment applied when the speed differs from \<open>1.0\<close>; these are all the calls made, in
  this order, and the file is gone.
\<close>

theorem C10_unsupported_format_found_after_processing:
  assumes "model w = Some m" "json_body req = Inr (PDict kvs)"
    "map_of kvs ''text'' = Some (PStr t)" "strip t \<noteq> []"
    "fst (synthesize env req w) = Inr resp" "status resp = 400"
  shows "\<exists>p a r fmt.
      tts_mktemp env = Inr p \<and> tts_to_file env m t p = Inr () \<and> sf_read env p = Inr (a, r)
      \<and> dict_get kvs ''response_format'' (PStr ''wav'') = PStr fmt \<and> lower fmt \<noteq> ''wav''
      \<and> resp = json_error (''Unsupported format: '' @ fmt) 400
      \<and> events_of (synthesize env req) w
          = [LogInfo (synth_log t), MkTemp p, TtsToFile t p, SfRead p, Unlink p]
            @ (if py_ne_one (dict_get kvs ''speed'' (PFloat (Fin 1)))
               then [TimeStretch a (dict_get kvs ''speed'' (PFloat (Fin 1)))] else [])
      \<and> p \<notin> files (snd (synthesize env req w))"
  using assms by (rule synthesize_400_after_processing)

theorem C10_unsupported_format_found_after_processing_witness:
  "events_of (synthesize env_ok req_mp3_fast) w_loaded
      = [LogInfo (synth_log ''hello''), MkTemp ''/tmp/tmpa1.wav'',
         TtsToFile ''hello'' ''/tmp/tmpa1.wav'', SfRead ''/tmp/tmpa1.wav'',
         Unlink ''/tmp/tmpa1.wav'', TimeStretch [0, 1 / 2] (PFloat (Fin 2))]
   \<and> ''/tmp/tmpa1.wav'' \<notin> files (snd (synthesize env_ok req_mp3_fast w_loaded))"
proof -
  have 9: "(if py_ne_one (dict_get [(''text'', PStr ''hello''),
              (''response_format'', PStr ''mp3''), (''speed'', PFloat (Fin 2))]
                ''speed'' (PFloat (Fin 1)))
            then time_stretch env_ok [0, 1 / 2]
                   (dict_get [(''text'', PStr ''hello''), (''response_format'', PStr ''mp3''),
                      (''speed'', PFloat (Fin 2))] ''speed'' (PFloat (Fin 1)))
            else Inr [0, 1 / 2]) = Inr [0]"
    by (simp add: mp3_fast_facts)
  have 10: "lower ''mp3'' = ''wav'' \<longrightarrow> sf_write env_ok [0] 22050 = Inr []"
    by (simp add: lower_mp3)
  have resp: "fst (synthesize env_ok req_mp3_fast w_loaded)
      = Inr (json_error ''Unsupported format: mp3'' 400)"
    using synthesize_format_result [OF mp3_fast_facts(1-3) strip_hello mp3_fast_facts(4)
        mp3_fast_facts(6-8) 9 10]
    by (simp add: lower_mp3 json_error_def jsonify_def)
  from C10_unsupported_format_found_after_processing [OF mp3_fast_facts(1-3) strip_hello
      resp status_json_error]
  show ?thesis
    by (auto simp add: mp3_fast_facts)
qed

subsection \<open>Loading the model at startup\<close>

lemma load_tts_total: "\<exists>b. fst (load_tts_model env w) = Inr b"
  by (cases "cuda_available env")
     (auto simp add: load_tts_model_def prog_defs Let_def split: sum.splits)

lemma load_whisper_total: "\<exists>b. fst (load_whisper_model env n w) = Inr b"
  by (auto simp add: load_whisper_model_def prog_defs split: sum.splits)

lemma load_whisper_fail:
  "load_model env n = Inl e \<Longrightarrow> fst (load_whisper_model env n w) = Inr False"
  by (simp add: load_whisper_model_def prog_defs)

lemma load_whisper_false:
  "fst (load_whisper_model env n w) = Inr False \<Longrightarrow>
     filter is_load_attempt (events_of (load_whisper_model env n) w) = [LoadModel n]"
  by (simp add: load_whisper_model_def prog_defs events_of_def split: sum.splits)

lemma load_tts_false:
  "fst (load_tts_model env w) = Inr False \<Longrightarrow>
     filter is_load_attempt (events_of (load_tts_model env) w)
        = [TTSInit tts_primary, TTSInit tts_fallback]"
  by (cases "cuda_available env")
     (auto simp add: load_tts_model_def prog_defs events_of_def Let_def split: sum.splits)

lemma load_tts_fail_iff:
  "fst (load_tts_model env w) = Inr False \<longleftrightarrow>
     (case tts_init env tts_primary of
        Inl e \<Rightarrow> True
      | Inr h \<Rightarrow> (case to_device env h (if cuda_available env then ''cuda'' else ''cpu'') of
                   Inl e \<Rightarrow> True | Inr h' \<Rightarrow> False))
     \<and> (case tts_init env tts_fallback of Inl e \<Rightarrow> True | Inr h \<Rightarrow> False)"
  by (cases "cuda_available env")
     (auto simp add: load_tts_model_def prog_defs Let_def split: sum.splits)

lemma load_tts_trace:
  "\<exists>evs. trace (snd (load_tts_model env w)) = trace w @ evs \<and> filter is_app_run evs = []"
  by (cases "cuda_available env")
     (auto simp add: load_tts_model_def prog_defs Let_def split: sum.splits)

lemma load_whisper_trace:
  "\<exists>evs. trace (snd (load_whisper_model env n w)) = trace w @ evs
         \<and> filter is_app_run evs = []"
  by (auto simp add: load_whisper_model_def prog_defs split: sum.splits)

lemma tts_main_exit:
  assumes "fst (load_tts_model env w) = Inr False"
  shows "fst (tts_main env a w) = Inr (Some 1)
     \<and> filter is_app_run (events_of (tts_main env a) w) = []"
proof -
  obtain w' where l: "load_tts_model env w = (Inr False, w')"
    using assms by (cases "load_tts_model env w") auto
  from load_tts_trace [of env w] l obtain evs
    where t: "trace w' = trace w @ evs" "filter is_app_run evs = []" by auto
  show ?thesis
    using l t by (simp add: tts_main_def prog_defs events_of_def)
qed

lemma stt_main_exit:
  assumes "fst (load_whisper_model env n w) = Inr False"
  shows "fst (stt_main env a n w) = Inr (Some 1)
     \<and> filter is_app_run (events_of (stt_main env a n) w) = []"
proof -
  obtain w' where l: "load_whisper_model env n w = (Inr False, w')"
    using assms by (cases "load_whisper_model env n w") auto
  from load_whisper_trace [of env n w] l obtain evs
    where t: "trace w' = trace w @ evs" "filter is_app_run evs = []" by auto
  show ?thesis
    using l t by (simp add: stt_main_def prog_defs events_of_def)
qed

text \<open>
  C8. Neither loader lets an exception out: each returns a boolean. The synthesis loader
  returns false exactly when the first model fails (its construction or its move to the
  device raises) and the fallback model fails too; it has then tried the first model and
  exactly one fallback. The transcription loader returns false as soon as its one load
  raises, and has tried nothing else. In both services \<^verbatim>\<open>main\<close> then exits with status 1
  and \<^verbatim>\<open>app.run\<close> has not been called.
\<close>

theorem C8_load_failure_is_false_and_exit_1:
  "(\<exists>b. fst (load_tts_model env w) = Inr b)
   \<and> (\<exists>b. fst (load_whisper_model senv n w) = Inr b)
   \<and> (fst (load_tts_model env w) = Inr False \<longleftrightarrow>
        (case tts_init env tts_primary of
           Inl e \<Rightarrow> True
         | Inr h \<Rightarrow> (case to_device env h (if cuda_available env then ''cuda'' else ''cpu'') of
                      Inl e \<Rightarrow> True | Inr h' \<Rightarrow> False))
        \<and> (case tts_init env tts_fallback of Inl e \<Rightarrow> True | Inr h \<Rightarrow> False))
   \<and> (load_model senv n = Inl e \<longrightarrow> fst (load_whisper_model senv n w) = Inr False)
   \<and> (fst (load_tts_model env w) = Inr False \<longrightarrow>
        filter is_load_attempt (events_of (load_tts_model env) w)
          = [TTSInit tts_primary, TTSInit tts_fallback]
        \<and> fst (tts_main env a w) = Inr (Some 1)
        \<and> filter is_app_run (events_of (tts_main env a) w) = [])
   \<and> (fst (load_whisper_model senv n w) = Inr False \<longrightarrow>
        filter is_load_attempt (events_of (load_whisper_model senv n) w) = [LoadModel n]
        \<and> fst (stt_main senv a n w) = Inr (Some 1)
        \<and> filter is_app_run (events_of (stt_main senv a n) w) = [])"
  using load_tts_total [of env w] load_whisper_total [of senv n w]
    load_tts_fail_iff [of env w] load_whisper_fail [of senv n e w]
    load_tts_false [of env w] tts_main_exit [of env w a]
    load_whisper_false [of senv n w] stt_main_exit [of senv n w a]
  by blast

theorem C8_load_failure_is_false_and_exit_1_witness:
  "fst (load_tts_model env_load_fails w_unloaded) = Inr False
   \<and> filter is_load_attempt (events_of (load_tts_model env_load_fails) w_unloaded)
       = [TTSInit tts_primary, TTSInit tts_fallback]
   \<and> fst (tts_main env_load_fails args0 w_unloaded) = Inr (Some 1)
   \<and> filter is_app_run (events_of (tts_main env_load_fails args0) w_unloaded) = []
   \<and> fst (load_whisper_model stt_env_load_fails ''base'' w_unloaded) = Inr False
   \<and> filter is_load_attempt
        (events_of (load_whisper_model stt_env_load_fails ''base'') w_unloaded)
       = [LoadModel ''base'']
   \<and> fst (stt_main stt_env_load_fails args0 ''base'' w_unloaded) = Inr (Some 1)
   \<and> filter is_app_run (events_of (stt_main stt_env_load_fails args0 ''base'') w_unloaded)
       = []"
proof -
  have 1: "tts_init env_load_fails tts_primary = Inl (LibError ''no such model'')"
    "tts_init env_load_fails tts_fallback = Inl (LibError ''no such model'')"
    by (simp_all add: env_load_fails_def env_ok_def)
  have 2: "load_model stt_env_load_fails ''base'' = Inl (LibError ''no such model'')"
    by (simp add: stt_env_load_fails_def stt_env_ok_def)
  note c8 = C8_load_failure_is_false_and_exit_1 [where env = env_load_fails
      and w = w_unloaded and senv = stt_env_load_fails and n = "''base''"
      and e = "LibError ''no such model''" and a = args0]
  from c8 1 have t: "fst (load_tts_model env_load_fails w_unloaded) = Inr False" by simp
  from c8 2 have s: "fst (load_whisper_model stt_env_load_fails ''base'' w_unloaded)
      = Inr False" by simp
  from c8 t s show ?thesis by simp
qed

subsection \<open>The transcription handler, stage by stage\<close>

text \<open>A request that passes the three checks, once the upload is saved, runs the inner
  \<^verbatim>\<open>try\<close> statement with the temporary file on disk.\<close>

lemma transcribe_valid:
  assumes "model w = Some m" "map_of (req_files req) ''audio'' = Some f"
    "filename f \<noteq> Some []" "stt_mktemp env = Inr p" "save_upload env f p = Inr ()"
  shows "transcribe env req w =
     try_except (transcribe_inner env m (form_format req) p)
       (\<lambda>e. seq (emit (LogError (''Request processing error: '' @ str_exn e)))
              (ret (json_error (''Request processing failed: '' @ str_exn e) 500)))
       (w\<lparr>files := insert p (files w), trace := trace w @ [MkTemp p, SaveUpload p]\<rparr>)"
  using assms
  by (simp add: transcribe_def prog_defs Let_def)

lemma inner_model_raises:
  assumes "transcribe_file env m p = Inl e" "p \<in> files w"
  shows "transcribe_inner env m fmt p w =
     (Inr (json_error (''Transcription failed: '' @ str_exn e) 500),
      w\<lparr>trace := trace w @ [LogInfo (''Transcribing audio file: '' @ p), Transcribe p,
                             LogError (''Transcription error: '' @ str_exn e),
                             PathExists p, Unlink p],
        files := files w - {p}\<rparr>)"
  using assms by (simp add: transcribe_inner_def prog_defs)

lemma inner_success:
  assumes "transcribe_file env m p = Inr result" "p \<in> files w"
    "map_of result ''text'' = Some t"
  shows "transcribe_inner env m fmt p w =
     (Inr (if fmt = ''json'' then
             jsonify [(''text'', t),
                      (''language'', dict_get result ''language'' (PStr ''en'')),
                      (''duration'', dict_get result ''duration'' (PInt 0)),
                      (''segments'', dict_get result ''segments'' (PList []))]
           else plain_text t),
      w\<lparr>trace := trace w @ [LogInfo (''Transcribing audio file: '' @ p), Transcribe p,
                             Unlink p],
        files := files w - {p}\<rparr>)"
  using assms by (simp add: transcribe_inner_def prog_defs)

lemma inner_no_text:
  assumes "transcribe_file env m p = Inr result" "p \<in> files w"
    "map_of result ''text'' = None"
  shows "transcribe_inner env m fmt p w =
     (Inr (json_error (''Transcription failed: '' @ str_exn (KeyError ''text'')) 500),
      w\<lparr>trace := trace w @ [LogInfo (''Transcribing audio file: '' @ p), Transcribe p,
                             Unlink p,
                             LogError (''Transcription error: '' @ str_exn (KeyError ''text'')),
                             PathExists p],
        files := files w - {p}\<rparr>)"
  using assms by (simp add: transcribe_inner_def prog_defs)

lemma no_transcribe_call_unless_valid:
  assumes "\<not> (model w \<noteq> None \<and> (\<exists>f. map_of (req_files req) ''audio'' = Some f
              \<and> filename f \<noteq> Some []))"
  shows "\<not> list_ex is_transcribe_call (events_of (transcribe env req) w)"
  using assms
  by (cases "model w"; cases "map_of (req_files req) ''audio''")
     (auto simp add: transcribe_def prog_defs events_of_def)

lemma valid_makes_transcribe_call:
  assumes "model w = Some m" "map_of (req_files req) ''audio'' = Some f"
    "filename f \<noteq> Some []" "stt_mktemp env = Inr p" "save_upload env f p = Inr ()"
  shows "list_ex is_transcribe_call (events_of (transcribe env req) w)"
  by (simp add: transcribe_valid [OF assms] transcribe_inner_def prog_defs events_of_def
        split: sum.splits option.splits)

lemma audio_facts:
  "model stt_loaded = Some (Handle ''base'')"
  "map_of (req_files req_audio) ''audio'' = Some clip"
  "map_of (req_files req_audio_text) ''audio'' = Some clip"
  "filename clip \<noteq> Some []"
  "stt_mktemp stt_env_ok = Inr ''/tmp/tmpb2.wav''"
  "stt_mktemp stt_env_raises = Inr ''/tmp/tmpb2.wav''"
  "save_upload stt_env_ok clip ''/tmp/tmpb2.wav'' = Inr ()"
  "save_upload stt_env_raises clip ''/tmp/tmpb2.wav'' = Inr ()"
  by (simp_all add: stt_loaded_def req_audio_def req_audio_text_def clip_def stt_env_ok_def
        stt_env_raises_def)

subsection \<open>Temporary files of the transcription handler\<close>

text \<open>
  C2. For a request that reaches the transcription stage (the three checks passed, the
  temporary file created and the upload saved into it), the file is not on disk when the
  handler returns. When the model returns, the file is deleted right after the call, once.
  When the model raises, nothing is deleted on that path: the error is logged, and the
  handler of the exception checks that the file exists and deletes it, then answers 500
  with the exception message in the error body.
\<close>

theorem C2_transcribe_deletes_tmp_file:
  assumes "model w = Some m" "map_of (req_files req) ''audio'' = Some f"
    "filename f \<noteq> Some []" "stt_mktemp env = Inr p" "save_upload env f p = Inr ()"
  shows "p \<notin> files (snd (transcribe env req w))
     \<and> (case transcribe_file env m p of
          Inl e \<Rightarrow>
            fst (transcribe env req w)
              = Inr \<lparr>status = 500,
                     body = JsonBody [(''error'', PStr (''Transcription failed: '' @ str_exn e))],
                     mimetype = ''application/json'', download_name = None\<rparr>
            \<and> events_of (transcribe env req) w
              = [MkTemp p, SaveUpload p, LogInfo (''Transcribing audio file: '' @ p),
                 Transcribe p, LogError (''Transcription error: '' @ str_exn e),
                 PathExists p, Unlink p]
        | Inr result \<Rightarrow>
            take 5 (events_of (transcribe env req) w)
              = [MkTemp p, SaveUpload p, LogInfo (''Transcribing audio file: '' @ p),
                 Transcribe p, Unlink p]
            \<and> filter (\<lambda>ev. ev = Unlink p) (events_of (transcribe env req) w) = [Unlink p])"
proof (cases "transcribe_file env m p")
  case (Inl e)
  then show ?thesis
    by (simp add: transcribe_valid [OF assms] inner_model_raises [OF Inl]
          try_except_def events_of_def json_error_def jsonify_def)
next
  case (Inr result)
  show ?thesis
  proof (cases "map_of result ''text''")
    case None
    with Inr show ?thesis
      by (simp add: transcribe_valid [OF assms] inner_no_text [OF Inr _ None]
            try_except_def events_of_def)
  next
    case (Some t)
    with Inr show ?thesis
      by (simp add: transcribe_valid [OF assms] inner_success [OF Inr _ Some]
            try_except_def events_of_def)
  qed
qed

theorem C2_transcribe_deletes_tmp_file_witness:
  "''/tmp/tmpb2.wav'' \<notin> files (snd (transcribe stt_env_raises req_audio stt_loaded))
   \<and> fst (transcribe stt_env_raises req_audio stt_loaded)
       = Inr \<lparr>status = 500,
              body = JsonBody [(''error'', PStr ''Transcription failed: bad audio'')],
              mimetype = ''application/json'', download_name = None\<rparr>
   \<and> ''/tmp/tmpb2.wav'' \<notin> files (snd (transcribe stt_env_ok req_audio stt_loaded))
   \<and> take 5 (events_of (transcribe stt_env_ok req_audio) stt_loaded)
       = [MkTemp ''/tmp/tmpb2.wav'', SaveUpload ''/tmp/tmpb2.wav'',
          LogInfo ''Transcribing audio file: /tmp/tmpb2.wav'',
          Transcribe ''/tmp/tmpb2.wav'', Unlink ''/tmp/tmpb2.wav'']"
  using C2_transcribe_deletes_tmp_file [OF audio_facts(1,2,4,6,8)]
    C2_transcribe_deletes_tmp_file [OF audio_facts(1,2,4,5,7)]
  by (simp add: stt_env_raises_def stt_env_ok_def)

subsection \<open>The shape of a transcription result\<close>

text \<open>
  C5. For a transcription that succeeds (the model returns a result with a \<open>text\<close>): when
  the form has no \<open>response_format\<close>, or has \<open>json\<close>, the answer is a JSON object with
  \<open>text\<close>, \<open>language\<close> (\<open>en\<close> when the result has none), \<open>duration\<close> (0 when absent) and
  \<open>segments\<close> (the empty list when absent); for any other value the answer is the bare
  transcript, with status 200 and content type \<open>text/plain\<close>.
\<close>

theorem C5_transcribe_result_shape:
  assumes "model w = Some m" "map_of (req_files req) ''audio'' = Some f"
    "filename f \<noteq> Some []" "stt_mktemp env = Inr p" "save_upload env f p = Inr ()"
    "transcribe_file env m p = Inr result" "map_of result ''text'' = Some t"
  shows "fst (transcribe env req w) =
     Inr (if map_of (req_form req) ''response_format'' = None
            \<or> map_of (req_form req) ''response_format'' = Some ''json''
          then \<lparr>status = 200,
                body = JsonBody
                  [(''text'', t),
                   (''language'', case map_of result ''language'' of
                                    None \<Rightarrow> PStr ''en'' | Some v \<Rightarrow> v),
                   (''duration'', case map_of result ''duration'' of
                                    None \<Rightarrow> PInt 0 | Some v \<Rightarrow> v),
                   (''segments'', case map_of result ''segments'' of
                                    None \<Rightarrow> PList [] | Some v \<Rightarrow> v)],
                mimetype = ''application/json'', download_name = None\<rparr>
          else \<lparr>status = 200, body = TextBody t, mimetype = ''text/plain'',
                download_name = None\<rparr>)"
  by (cases "map_of (req_form req) ''response_format''")
     (simp_all add: transcribe_valid [OF assms(1-5)] inner_success [OF assms(6) _ assms(7)]
          try_except_def form_format_def dict_get_def jsonify_def plain_text_def)

theorem C5_transcribe_result_shape_witness:
  "fst (transcribe stt_env_ok req_audio_text stt_loaded)
     = Inr \<lparr>status = 200, body = TextBody (PStr ''hello world''), mimetype = ''text/plain'',
             download_name = None\<rparr>
   \<and> fst (transcribe stt_env_ok req_audio stt_loaded)
     = Inr \<lparr>status = 200,
             body = JsonBody [(''text'', PStr ''hello world''), (''language'', PStr ''de''),
                              (''duration'', PInt 0), (''segments'', PList [])],
             mimetype = ''application/json'', download_name = None\<rparr>"
proof -
  have r: "transcribe_file stt_env_ok (Handle ''base'') ''/tmp/tmpb2.wav''
      = Inr [(''text'', PStr ''hello world''), (''language'', PStr ''de'')]"
    by (simp add: stt_env_ok_def)
  have t: "map_of [(''text'', PStr ''hello world''), (''language'', PStr ''de'')] ''text''
      = Some (PStr ''hello world'')" by simp
  show ?thesis
    using C5_transcribe_result_shape [OF audio_facts(1,3,4,5,7) r t]
      C5_transcribe_result_shape [OF audio_facts(1,2,4,5,7) r t]
    by (simp add: req_audio_text_def req_audio_def)
qed

subsection \<open>Validation of a transcription request\<close>

text \<open>
  C6. \<^verbatim>\<open>POST /transcribe\<close> checks, in this order: the model handle (500 when not loaded,
  whatever the request), the \<open>audio\<close> part (400 when there is none), its filename (400
  when it is the empty string); nothing else happens on a failure. The model is called
  only for a request that passes the three checks, and is called for every such request
  once the upload is saved to its temporary file.
\<close>

theorem C6_transcribe_validation_order:
  "(model w = None \<longrightarrow>
      transcribe env req w = (Inr (json_error ''Model not loaded'' 500), w))
   \<and> (model w = Some m \<and> map_of (req_files req) ''audio'' = None \<longrightarrow>
      transcribe env req w = (Inr (json_error ''No audio file provided'' 400), w))
   \<and> (model w = Some m \<and> map_of (req_files req) ''audio'' = Some f
        \<and> filename f = Some [] \<longrightarrow>
      transcribe env req w = (Inr (json_error ''No audio file selected'' 400), w))
   \<and> (list_ex is_transcribe_call (events_of (transcribe env req) w) \<longrightarrow>
        model w \<noteq> None \<and> (\<exists>f. map_of (req_files req) ''audio'' = Some f
              \<and> filename f \<noteq> Some []))
   \<and> (model w = Some m \<and> map_of (req_files req) ''audio'' = Some f
        \<and> filename f \<noteq> Some [] \<and> stt_mktemp env = Inr p \<and> save_upload env f p = Inr ()
        \<longrightarrow> list_ex is_transcribe_call (events_of (transcribe env req) w))"
proof -
  have a: "model w = None \<longrightarrow>
      transcribe env req w = (Inr (json_error ''Model not loaded'' 500), w)"
    by (simp add: transcribe_def prog_defs)
  have b: "model w = Some m \<and> map_of (req_files req) ''audio'' = None \<longrightarrow>
      transcribe env req w = (Inr (json_error ''No audio file provided'' 400), w)"
    by (simp add: transcribe_def prog_defs)
  have c: "model w = Some m \<and> map_of (req_files req) ''audio'' = Some f
        \<and> filename f = Some [] \<longrightarrow>
      transcribe env req w = (Inr (json_error ''No audio file selected'' 400), w)"
    by (simp add: transcribe_def prog_defs)
  have d: "list_ex is_transcribe_call (events_of (transcribe env req) w) \<longrightarrow>
        model w \<noteq> None \<and> (\<exists>f. map_of (req_files req) ''audio'' = Some f
              \<and> filename f \<noteq> Some [])"
    using no_transcribe_call_unless_valid [of w req env] by blast
  have e: "model w = Some m \<and> map_of (req_files req) ''audio'' = Some f
        \<and> filename f \<noteq> Some [] \<and> stt_mktemp env = Inr p \<and> save_upload env f p = Inr ()
        \<longrightarrow> list_ex is_transcribe_call (events_of (transcribe env req) w)"
    using valid_makes_transcribe_call by blast
  from a b c d e show ?thesis by blast
qed

theorem C6_transcribe_validation_order_witness:
  "transcribe stt_env_ok req_audio w_unloaded
      = (Inr (json_error ''Model not loaded'' 500), w_unloaded)
   \<and> transcribe stt_env_ok req_no_audio stt_loaded
      = (Inr (json_error ''No audio file provided'' 400), stt_loaded)
   \<and> transcribe stt_env_ok req_unnamed_audio stt_loaded
      = (Inr (json_error ''No audio file selected'' 400), stt_loaded)
   \<and> list_ex is_transcribe_call (events_of (transcribe stt_env_ok req_audio) stt_loaded)"
proof -
  have 1: "model w_unloaded = None" by (simp add: w_unloaded_def)
  have 2: "map_of (req_files req_no_audio) ''audio'' = None" by (simp add: req_no_audio_def)
  have 3: "map_of (req_files req_unnamed_audio) ''audio'' = Some (clip\<lparr>filename := Some []\<rparr>)"
    "filename (clip\<lparr>filename := Some []\<rparr>) = Some []"
    by (simp_all add: req_unnamed_audio_def)
  show ?thesis
    using C6_transcribe_validation_order [where w = w_unloaded and env = stt_env_ok
        and req = req_audio]
      C6_transcribe_validation_order [where w = stt_loaded and m = "Handle ''base''"
        and env = stt_env_ok and req = req_no_audio]
      C6_transcribe_validation_order [where w = stt_loaded and m = "Handle ''base''"
        and env = stt_env_ok and req = req_unnamed_audio
        and f = "clip\<lparr>filename := Some []\<rparr>"]
      C6_transcribe_validation_order [where w = stt_loaded and m = "Handle ''base''"
        and env = stt_env_ok and req = req_audio and f = clip and p = "''/tmp/tmpb2.wav''"]
      1 2 3 audio_facts
    by simp
qed

end
